theory Spec2Isabelle
  imports Main
begin

section \<open>The durable store (drizzle schema)\<close>

text \<open>
  Identifiers are the textual form of a uuid; instants are milliseconds since the epoch,
  the value of \<^verbatim>\<open>Date.now()\<close> and of \<^verbatim>\<open>Date.getTime()\<close>.
  Each table of the schema is a list of rows; the field names carry the table name
  because Isabelle record fields are global.
\<close>

type_synonym uuid = string
type_synonym timestamp = int

record users_row =
  users_id :: uuid
  users_email :: string
  users_name :: "string option"
  users_createdAt :: timestamp
  users_emailConfirmed :: bool

record passwords_row =
  passwords_hash :: string
  passwords_userId :: uuid

record sessions_row =
  sessions_id :: uuid
  sessions_expirationDate :: timestamp
  sessions_createdAt :: timestamp
  sessions_userId :: uuid

record verification_row =
  verification_id :: uuid
  verification_createdAt :: timestamp
  verification_type :: string
  verification_target :: string
  verification_secret :: string
  verification_algorithm :: string
  verification_digits :: int
  verification_period :: int
  verification_charSet :: string
  verification_expiresAt :: "timestamp option"

record db =
  users :: "users_row list"
  passwords :: "passwords_row list"
  sessions :: "sessions_row list"
  verification :: "verification_row list"

section \<open>Client-side channels, requests and responses\<close>

text \<open>
  The two cookie sessions. \<open>authSessionStorage\<close> carries the keys \<^verbatim>\<open>sessionId\<close>
  (the constant \<open>sessionKey\<close>) and \<^verbatim>\<open>verified-time\<close> (\<open>verifiedTimeKey\<close>);
  \<open>verifySessionStorage\<close> carries \<^verbatim>\<open>unverified-session-id\<close> and \<^verbatim>\<open>remember\<close>.
  A key that was never set reads as \<open>None\<close> (JavaScript \<^verbatim>\<open>undefined\<close>); a request
  without the cookie yields the empty session.
\<close>

record auth_data =
  sessionKey :: "uuid option"
  verifiedTimeKey :: "timestamp option"

record verify_data =
  unverifiedSessionIdKey :: "uuid option"
  rememberKey :: "bool option"

definition emptyAuthSession :: auth_data where
  "emptyAuthSession = \<lparr>sessionKey = None, verifiedTimeKey = None\<rparr>"

definition emptyVerifySession :: verify_data where
  "emptyVerifySession = \<lparr>unverifiedSessionIdKey = None, rememberKey = None\<rparr>"

record request =
  cookie_auth :: auth_data
  cookie_verify :: verify_data
  request_url :: string

text \<open>
  A \<^verbatim>\<open>set-cookie\<close> header is the result of \<open>commitSession\<close> (the session data and
  the optional \<^verbatim>\<open>expires\<close>) or of \<open>destroySession\<close>, on one of the two storages.
\<close>

datatype cookie =
    CommitAuth auth_data "timestamp option"
  | DestroyAuth
  | CommitVerify verify_data
  | DestroyVerify

datatype header = SetCookie cookie | Header string string

datatype response = Redirect string "header list"

text \<open>
  What a function can do other than return: throw a redirect response, fail the
  \<open>invariant\<close> assertion, or have the store reject a write.
\<close>

datatype error =
    Redirected response
  | InvariantError string
  | StoreError string

text \<open>JavaScript truthiness of an optional string: \<^verbatim>\<open>undefined\<close> and \<^verbatim>\<open>""\<close> are falsy.\<close>

definition truthy :: "string option \<Rightarrow> bool" where
  "truthy v = (case v of None \<Rightarrow> False | Some s \<Rightarrow> s \<noteq> [])"

section \<open>What the two modules import from outside the sources\<close>

text \<open>
  \<open>twoFAVerificationType\<close> is a constant of the two-factor settings route,
  \<open>safeRedirect\<close> comes from remix-utils, \<open>getRedirectToUrl\<close> from
  \<^verbatim>\<open>verify.server.ts\<close> (its result is used only as
  \<^verbatim>\<open>`${pathname}?${searchParams}`\<close>, which is what the field returns), and
  \<open>bcrypt_compare\<close> is \<^verbatim>\<open>bcrypt.compare\<close>. None of them is among the sources, so
  every function below takes them as the parameter \<open>e\<close>.
\<close>

record env =
  twoFAVerificationType :: string
  safeRedirect :: "string option \<Rightarrow> string"
  getRedirectToUrl :: "request \<Rightarrow> string \<Rightarrow> string \<Rightarrow> string option \<Rightarrow> string"
  bcrypt_compare :: "string \<Rightarrow> string \<Rightarrow> bool"

text \<open>
  Modelled from the spec: \<open>combineHeaders\<close> and \<open>combineResponseInits\<close> live in
  \<^verbatim>\<open>~/utils/misc\<close>, which is not among the sources. The spec's client-side channel
  transport (section 6) carries each channel in its own cookie, so combining keeps every
  header of every argument, in argument order; an absent argument contributes nothing.
  A \<open>ResponseInit\<close> is represented by its headers.
\<close>

definition combineHeaders :: "header list option list \<Rightarrow> header list" where
  "combineHeaders hs = concat (map (\<lambda>h. case h of None \<Rightarrow> [] | Some l \<Rightarrow> l) hs)"

definition combineResponseInits :: "header list option list \<Rightarrow> header list" where
  "combineResponseInits inits = combineHeaders inits"

section \<open>Writes to the store\<close>

text \<open>
  An insert is rejected when it would break a constraint the schema declares on the
  table: the primary key, a unique column, a foreign key.
\<close>

definition insert_users :: "users_row \<Rightarrow> db \<Rightarrow> error + db" where
  "insert_users row d =
     (if users_id row \<in> set (map users_id (users d)) then Inl (StoreError ''users_pkey'')
      else if users_email row \<in> set (map users_email (users d))
        then Inl (StoreError ''users_email_unique'')
      else Inr (d\<lparr>users := users d @ [row]\<rparr>))"

definition insert_passwords :: "passwords_row \<Rightarrow> db \<Rightarrow> error + db" where
  "insert_passwords row d =
     (if passwords_userId row \<in> set (map passwords_userId (passwords d))
        then Inl (StoreError ''passwords_user_id_unique'')
      else if passwords_userId row \<notin> set (map users_id (users d))
        then Inl (StoreError ''passwords_user_id_users_id_fk'')
      else Inr (d\<lparr>passwords := passwords d @ [row]\<rparr>))"

definition insert_sessions :: "sessions_row \<Rightarrow> db \<Rightarrow> error + db" where
  "insert_sessions row d =
     (if sessions_id row \<in> set (map sessions_id (sessions d))
        then Inl (StoreError ''sessions_pkey'')
      else if sessions_userId row \<notin> set (map users_id (users d))
        then Inl (StoreError ''sessions_user_id_users_id_fk'')
      else Inr (d\<lparr>sessions := sessions d @ [row]\<rparr>))"

section \<open>auth.server.ts\<close>

definition SESSION_EXPIRATION_TIME :: int where
  "SESSION_EXPIRATION_TIME = 1000 * 60 * 60 * 24 * 30"

text \<open>\<open>now\<close> is the clock reading \<^verbatim>\<open>Date.now()\<close>.\<close>

definition getSessionExpirationDate :: "timestamp \<Rightarrow> timestamp" where
  "getSessionExpirationDate now = now + SESSION_EXPIRATION_TIME"

text \<open>
  \<open>getUserId\<close>: \<open>now\<close> is \<^verbatim>\<open>new Date()\<close> in the query. The query joins the session's
  user through \<open>sessionRelations\<close> (\<open>sessions.userId\<close> references \<open>users.id\<close>).
\<close>

definition getUserId :: "db \<Rightarrow> timestamp \<Rightarrow> request \<Rightarrow> error + uuid option" where
  "getUserId d now request =
     (let authSession = cookie_auth request;
          sessionId = sessionKey authSession
      in if \<not> truthy sessionId then Inr None
         else
           (case find (\<lambda>s. Some (sessions_id s) = sessionId \<and> sessions_expirationDate s > now)
                      (sessions d) of
              None \<Rightarrow> Inl (Redirected (Redirect ''/'' [SetCookie DestroyAuth]))
            | Some existingSession \<Rightarrow>
                (case find (\<lambda>u. users_id u = sessions_userId existingSession) (users d) of
                   None \<Rightarrow> Inl (Redirected (Redirect ''/'' [SetCookie DestroyAuth]))
                 | Some user \<Rightarrow> Inr (Some (users_id user)))))"

text \<open>
  \<open>logout\<close>: \<open>redirectTo\<close> defaults to \<^verbatim>\<open>"/"\<close>. Deleting by id removes every
  matching row and is not an error when none matches.
\<close>

definition logout ::
  "env \<Rightarrow> db \<Rightarrow> request \<Rightarrow> string option \<Rightarrow> header list option \<Rightarrow> (error + response) \<times> db"
where
  "logout e d request redirectTo responseInit =
     (let authSession = cookie_auth request;
          sessionId = sessionKey authSession;
          d' = (if truthy sessionId
                then d\<lparr>sessions := filter (\<lambda>s. Some (sessions_id s) \<noteq> sessionId) (sessions d)\<rparr>
                else d)
      in (Inr (Redirect
                 (safeRedirect e (Some (case redirectTo of None \<Rightarrow> ''/'' | Some r \<Rightarrow> r)))
                 (combineHeaders [Some [SetCookie DestroyAuth], responseInit])),
          d'))"

text \<open>
  \<open>verifyUserPassword\<close>: the result is \<^verbatim>\<open>{ id }\<close> or \<^verbatim>\<open>null\<close>. The user's password
  is joined through \<open>userRelations\<close> (\<open>passwords.userId\<close> references \<open>users.id\<close>).
\<close>

record userInfo =
  userInfo_email :: "string option"
  userInfo_userId :: "string option"

datatype users_where = EqEmail string | EqId string

fun users_matches :: "users_where \<Rightarrow> users_row \<Rightarrow> bool" where
  "users_matches (EqEmail em) u = (users_email u = em)"
| "users_matches (EqId i) u = (users_id u = i)"

definition verifyUserPassword :: "env \<Rightarrow> db \<Rightarrow> userInfo \<Rightarrow> string \<Rightarrow> uuid option" where
  "verifyUserPassword e d info password =
     (let where0 = None;
          where1 = (case userInfo_email info of
                      None \<Rightarrow> where0
                    | Some em \<Rightarrow> if em \<noteq> [] then Some (EqEmail em) else where0);
          where2 = (case userInfo_userId info of
                      None \<Rightarrow> where1
                    | Some i \<Rightarrow> if i \<noteq> [] then Some (EqId i) else where1)
      in case where2 of
           None \<Rightarrow> None
         | Some w \<Rightarrow>
             (case find (users_matches w) (users d) of
                None \<Rightarrow> None
              | Some userWithPassword \<Rightarrow>
                  (case find (\<lambda>p. passwords_userId p = users_id userWithPassword)
                             (passwords d) of
                     None \<Rightarrow> None
                   | Some pw \<Rightarrow>
                       if \<not> bcrypt_compare e password (passwords_hash pw) then None
                       else Some (users_id userWithPassword))))"

text \<open>
  The object that \<open>login\<close> and \<open>signup\<close> return: the \<^verbatim>\<open>returning\<close> columns of the
  inserted row.
\<close>

record session =
  session_id :: uuid
  session_expirationDate :: timestamp
  session_userId :: uuid

definition returning :: "sessions_row \<Rightarrow> session" where
  "returning row =
     \<lparr>session_id = sessions_id row,
      session_expirationDate = sessions_expirationDate row,
      session_userId = sessions_userId row\<rparr>"

text \<open>
  \<open>login\<close>: \<open>now\<close> is \<^verbatim>\<open>Date.now()\<close>, \<open>ts\<close> the store's \<^verbatim>\<open>CURRENT_TIMESTAMP\<close>
  (the default of \<open>createdAt\<close>), \<open>newId\<close> the result of \<^verbatim>\<open>uuidv7()\<close>.
\<close>

definition login ::
  "env \<Rightarrow> db \<Rightarrow> timestamp \<Rightarrow> timestamp \<Rightarrow> uuid \<Rightarrow> string \<Rightarrow> string
     \<Rightarrow> (error + session option) \<times> db"
where
  "login e d now ts newId email password =
     (case verifyUserPassword e d \<lparr>userInfo_email = Some email, userInfo_userId = None\<rparr>
             password of
        None \<Rightarrow> (Inr None, d)
      | Some user \<Rightarrow>
          (let row = \<lparr>sessions_id = newId,
                      sessions_expirationDate = getSessionExpirationDate now,
                      sessions_createdAt = ts,
                      sessions_userId = user\<rparr>
           in case insert_sessions row d of
                Inl err \<Rightarrow> (Inl err, d)
              | Inr d' \<Rightarrow> (Inr (Some (returning row)), d')))"

text \<open>
  \<^verbatim>\<open>String.prototype.toLowerCase\<close> on the letters A to Z; this model's characters are
  bytes, and every other byte is kept.
\<close>

definition toLowerCase :: "string \<Rightarrow> string" where
  "toLowerCase s =
     map (\<lambda>c. let n = (of_char c :: nat)
               in if 65 \<le> n \<and> n \<le> 90 then char_of (n + 32) else c) s"

text \<open>
  \<open>signup\<close>: \<open>hashedPassword\<close> is the (salted) result of \<^verbatim>\<open>bcrypt.hash(sentPassword, 10)\<close>,
  \<open>userUuid\<close> and \<open>sessionUuid\<close> are the two results of \<^verbatim>\<open>uuidv7()\<close>. The three inserts
  are one transaction: a rejected insert leaves the store as it was.
\<close>

definition signup ::
  "db \<Rightarrow> timestamp \<Rightarrow> timestamp \<Rightarrow> uuid \<Rightarrow> uuid \<Rightarrow> string \<Rightarrow> string \<Rightarrow> string
     \<Rightarrow> (error + session) \<times> db"
where
  "signup d now ts userUuid sessionUuid hashedPassword email name =
     (case insert_users
             \<lparr>users_id = userUuid, users_email = toLowerCase email, users_name = Some name,
              users_createdAt = ts, users_emailConfirmed = True\<rparr> d of
        Inl err \<Rightarrow> (Inl err, d)
      | Inr d1 \<Rightarrow>
          (case insert_passwords
                  \<lparr>passwords_hash = hashedPassword, passwords_userId = userUuid\<rparr> d1 of
             Inl err \<Rightarrow> (Inl err, d)
           | Inr d2 \<Rightarrow>
               (let row = \<lparr>sessions_id = sessionUuid,
                           sessions_expirationDate = getSessionExpirationDate now,
                           sessions_createdAt = ts,
                           sessions_userId = userUuid\<rparr>
                in case insert_sessions row d2 of
                     Inl err \<Rightarrow> (Inl err, d)
                   | Inr d3 \<Rightarrow> (Inr (returning row), d3))))"

section \<open>login.server.ts\<close>

text \<open>
  \<open>handleNewSession\<close>. In the two-factor branch the verify session is a fresh one
  (\<open>getSession()\<close> without a cookie); in the other branch the auth session is the one
  of the request.
\<close>

definition handleNewSession ::
  "env \<Rightarrow> db \<Rightarrow> request \<Rightarrow> session \<Rightarrow> string option \<Rightarrow> bool \<Rightarrow> header list option
     \<Rightarrow> response"
where
  "handleNewSession e d request sess redirectTo remember responseInit =
     (let existingVerification =
            find (\<lambda>v. verification_target v = session_userId sess
                       \<and> verification_type v = twoFAVerificationType e) (verification d);
          userHasTwoFactor = (existingVerification \<noteq> None)
      in if userHasTwoFactor then
           (let verifySession0 = emptyVerifySession;
                verifySession1 = verifySession0\<lparr>unverifiedSessionIdKey := Some (session_id sess)\<rparr>;
                verifySession2 = verifySession1\<lparr>rememberKey := Some remember\<rparr>;
                redirectUrl = getRedirectToUrl e request (twoFAVerificationType e)
                                (session_userId sess) redirectTo
            in Redirect redirectUrl
                 (combineResponseInits
                    [Some [SetCookie (CommitVerify verifySession2)], responseInit]))
         else
           (let authSession0 = cookie_auth request;
                authSession1 = authSession0\<lparr>sessionKey := Some (session_id sess)\<rparr>
            in Redirect (safeRedirect e redirectTo)
                 (combineResponseInits
                    [Some [SetCookie (CommitAuth authSession1
                             (if remember then Some (session_expirationDate sess) else None))],
                     responseInit])))"

text \<open>The submission of the verify form: its status and the \<open>redirectTo\<close> of its value.\<close>

datatype submission_status = StatusSuccess | StatusError | StatusUndefined

record submission =
  submission_status :: submission_status
  submission_redirectTo :: "string option"

text \<open>\<open>handleVerification\<close>: \<open>now\<close> is \<^verbatim>\<open>Date.now()\<close>.\<close>

definition handleVerification ::
  "env \<Rightarrow> db \<Rightarrow> timestamp \<Rightarrow> request \<Rightarrow> submission \<Rightarrow> error + response"
where
  "handleVerification e d now request sub =
     (if submission_status sub \<noteq> StatusSuccess
      then Inl (InvariantError ''Submission should be successful by now'')
      else
        (let authSession0 = cookie_auth request;
             verifySession = cookie_verify request;
             remember = rememberKey verifySession;
             redirectTo = submission_redirectTo sub;
             authSession1 = authSession0\<lparr>verifiedTimeKey := Some now\<rparr>;
             unverifiedSessionId = unverifiedSessionIdKey verifySession
         in if truthy unverifiedSessionId then
              (case find (\<lambda>s. Some (sessions_id s) = unverifiedSessionId) (sessions d) of
                 None \<Rightarrow> Inl (Redirected (Redirect ''/accounts/login'' []))
               | Some existingSession \<Rightarrow>
                   (let authSession2 = authSession1\<lparr>sessionKey := unverifiedSessionId\<rparr>
                    in Inr (Redirect (safeRedirect e redirectTo)
                         [SetCookie (CommitAuth authSession2
                            (if remember = Some True
                             then Some (sessions_expirationDate existingSession) else None)),
                          SetCookie DestroyVerify])))
            else
              Inr (Redirect (safeRedirect e redirectTo)
                     [SetCookie (CommitAuth authSession1 None), SetCookie DestroyVerify])))"

text \<open>
  \<open>shouldRequestTwoFA\<close>: \<open>t1\<close> is the clock reading inside \<open>getUserId\<close>, \<open>t2\<close>
  the later \<^verbatim>\<open>Date.now()\<close> of the comparison. A missing stamp reads as
  \<^verbatim>\<open>new Date(0)\<close>, which the subtraction turns into 0.
\<close>

definition shouldRequestTwoFA ::
  "env \<Rightarrow> db \<Rightarrow> timestamp \<Rightarrow> timestamp \<Rightarrow> request \<Rightarrow> error + bool"
where
  "shouldRequestTwoFA e d t1 t2 request =
     (let authSession = cookie_auth request;
          verifySession = cookie_verify request
      in if unverifiedSessionIdKey verifySession \<noteq> None then Inr True
         else
           (case getUserId d t1 request of
              Inl err \<Rightarrow> Inl err
            | Inr userId \<Rightarrow>
                if \<not> truthy userId then Inr False
                else
                  (case find (\<lambda>v. Some (verification_target v) = userId
                                   \<and> verification_type v = twoFAVerificationType e)
                             (verification d) of
                     None \<Rightarrow> Inr False
                   | Some userHasTwoFA \<Rightarrow>
                       (let verifiedTime = (case verifiedTimeKey authSession of
                                              None \<Rightarrow> 0 | Some t \<Rightarrow> t);
                            twoHours = 1000 * 60 * 2
                        in Inr (t2 - verifiedTime > twoHours)))))"

section \<open>Well-formed stores\<close>

text \<open>
  Well-formedness of the session table that the schema declares: \<open>id\<close> is the primary
  key (a uuid, so never the empty string), and \<open>userId\<close> references an existing user.
\<close>

definition sessions_wf :: "db \<Rightarrow> bool" where
  "sessions_wf d =
     (distinct (map sessions_id (sessions d))
      \<and> [] \<notin> set (map sessions_id (sessions d))
      \<and> set (map sessions_userId (sessions d)) \<subseteq> set (map users_id (users d)))"

section \<open>The verification table\<close>

text \<open>
  The table declares \<open>targetTypeUnique\<close>, \<^verbatim>\<open>unique().on(table.target, table.type)\<close>,
  and the unique index \<^verbatim>\<open>verification_target_type_key\<close> on the same pair: no two
  rows agree on both columns.
\<close>

definition targetTypeUnique :: "verification_row list \<Rightarrow> bool" where
  "targetTypeUnique rows =
     distinct (map (\<lambda>v. (verification_target v, verification_type v)) rows)"

text \<open>
  Modelled from the spec: the code that issues and consumes challenges
  (\<^verbatim>\<open>verify.server.ts\<close>) and the store itself are not among the sources. Section 6 of
  the spec gives the store the row operations insert, \<open>insertOrReplace(table, key, row)\<close>
  and \<open>delete(table, key)\<close>, each atomic, and has it enforce the \<open>(target, type)\<close>
  constraint; section 4.1 has \<open>issue\<close> upsert on that key, replacing the prior row.
  A rejected insert leaves the table as it was.
\<close>

definition insert_verification ::
  "verification_row \<Rightarrow> verification_row list \<Rightarrow> error + verification_row list"
where
  "insert_verification row rows =
     (if verification_id row \<in> set (map verification_id rows)
        then Inl (StoreError ''verification_pkey'')
      else if (verification_target row, verification_type row)
                \<in> set (map (\<lambda>v. (verification_target v, verification_type v)) rows)
        then Inl (StoreError ''verification_target_type_key'')
      else Inr (rows @ [row]))"

definition delete_verification ::
  "string \<Rightarrow> string \<Rightarrow> verification_row list \<Rightarrow> verification_row list"
where
  "delete_verification target ty rows =
     filter (\<lambda>v. \<not> (verification_target v = target \<and> verification_type v = ty)) rows"

definition insertOrReplace_verification ::
  "verification_row \<Rightarrow> verification_row list \<Rightarrow> error + verification_row list"
where
  "insertOrReplace_verification row rows =
     insert_verification row
       (delete_verification (verification_target row) (verification_type row) rows)"

datatype verification_write =
    Insert verification_row
  | InsertOrReplace verification_row
  | Delete string string

fun write_verification ::
  "verification_write \<Rightarrow> verification_row list \<Rightarrow> verification_row list"
where
  "write_verification (Insert row) rows =
     (case insert_verification row rows of Inl err \<Rightarrow> rows | Inr rows' \<Rightarrow> rows')"
| "write_verification (InsertOrReplace row) rows =
     (case insertOrReplace_verification row rows of Inl err \<Rightarrow> rows | Inr rows' \<Rightarrow> rows')"
| "write_verification (Delete target ty) rows = delete_verification target ty rows"

text \<open>
  A history of the table: the writes of all callers in the order the store applied them
  (each write is atomic, so concurrent callers interleave whole writes).
\<close>

fun writes_verification ::
  "verification_write list \<Rightarrow> verification_row list \<Rightarrow> verification_row list"
where
  "writes_verification [] rows = rows"
| "writes_verification (w # ws) rows = writes_verification ws (write_verification w rows)"

section \<open>A small store for running the functions\<close>

definition ex_env :: env where
  "ex_env =
     \<lparr>twoFAVerificationType = ''2fa'',
      safeRedirect = (\<lambda>r. case r of None \<Rightarrow> ''/'' | Some u \<Rightarrow> u),
      getRedirectToUrl = (\<lambda>request ty target redirectTo. ''/accounts/verify?type='' @ ty),
      bcrypt_compare = (\<lambda>password hash. hash = ''bcrypt:'' @ password)\<rparr>"

definition ex_db :: db where
  "ex_db =
     \<lparr>users =
        [\<lparr>users_id = ''u-alice'', users_email = ''alice@example.com'', users_name = Some ''Alice'',
          users_createdAt = 1000, users_emailConfirmed = True\<rparr>,
         \<lparr>users_id = ''u-bob'', users_email = ''bob@example.com'', users_name = Some ''Bob'',
          users_createdAt = 2000, users_emailConfirmed = True\<rparr>,
         \<lparr>users_id = ''u-carol'', users_email = ''carol@example.com'', users_name = None,
          users_createdAt = 3000, users_emailConfirmed = False\<rparr>],
      passwords =
        [\<lparr>passwords_hash = ''bcrypt:wonderland'', passwords_userId = ''u-alice''\<rparr>,
         \<lparr>passwords_hash = ''bcrypt:builder'', passwords_userId = ''u-bob''\<rparr>],
      sessions =
        [\<lparr>sessions_id = ''s-1'', sessions_expirationDate = 2592005000,
          sessions_createdAt = 5000, sessions_userId = ''u-alice''\<rparr>],
      verification =
        [\<lparr>verification_id = ''v-1'', verification_createdAt = 4000,
          verification_type = ''2fa'', verification_target = ''u-alice'',
          verification_secret = ''JBSWY3DPEHPK3PXP'', verification_algorithm = ''SHA1'',
          verification_digits = 6, verification_period = 30,
          verification_charSet = ''0123456789'', verification_expiresAt = None\<rparr>]\<rparr>"

definition ex_request :: "uuid option \<Rightarrow> timestamp option \<Rightarrow> request" where
  "ex_request sid stamp =
     \<lparr>cookie_auth = \<lparr>sessionKey = sid, verifiedTimeKey = stamp\<rparr>,
      cookie_verify = emptyVerifySession,
      request_url = ''https://example.com/settings''\<rparr>"

section \<open>Properties\<close>

lemma find_unique_row:
  assumes "distinct (map f xs)" and "r \<in> set xs"
  shows "find (\<lambda>s. f s = f r \<and> P s) xs = (if P r then Some r else None)"
  using assms
proof (induction xs)
  case Nil
  then show ?case by simp
next
  case (Cons x xs)
  show ?case
  proof (cases "x = r")
    case True
    with Cons.prems have "f r \<notin> f ` set xs" by simp
    then have "find (\<lambda>s. f s = f r \<and> P s) xs = None"
      by (auto simp: find_None_iff image_iff)
    with True show ?thesis by simp
  next
    case False
    with Cons.prems have "r \<in> set xs" and "f x \<noteq> f r" and "distinct (map f xs)"
      by auto
    with Cons.IH show ?thesis by simp
  qed
qed

lemma find_key_member:
  assumes "k \<in> set (map f xs)"
  shows "\<exists>u. find (\<lambda>x. f x = k) xs = Some u \<and> f u = k"
  using assms by (induction xs) auto

lemma find_append_rows:
  "find P (xs @ ys) = (case find P xs of None \<Rightarrow> find P ys | Some x \<Rightarrow> Some x)"
  by (induction xs) auto

subsection \<open>Session resolution\<close>

text \<open>
  C4. A request that presents the id of a session row resolves to the row's owner exactly
  when the clock is strictly before the row's \<open>expirationDate\<close>; at that instant or later
  the same request is thrown out with a redirect that destroys the cookie. The check is
  made on the row as stored, at read time.
\<close>

theorem getUserId_live_iff_before_expiry:
  assumes "sessions_wf d" and "r \<in> set (sessions d)"
    and "sessionKey (cookie_auth request) = Some (sessions_id r)"
  shows "getUserId d now request =
           (if now < sessions_expirationDate r then Inr (Some (sessions_userId r))
            else Inl (Redirected (Redirect ''/'' [SetCookie DestroyAuth])))"
proof -
  from assms(1,2) have nonempty: "sessions_id r \<noteq> []"
    by (auto simp: sessions_wf_def image_iff)
  from assms(1) have dist: "distinct (map sessions_id (sessions d))"
    by (simp add: sessions_wf_def)
  have look: "find (\<lambda>s. Some (sessions_id s) = Some (sessions_id r)
                        \<and> sessions_expirationDate s > now) (sessions d)
              = (if sessions_expirationDate r > now then Some r else None)"
    using find_unique_row [OF dist assms(2), of "\<lambda>s. sessions_expirationDate s > now"]
    by simp
  from assms(1,2) have "sessions_userId r \<in> set (map users_id (users d))"
    by (auto simp: sessions_wf_def)
  then obtain u where u: "find (\<lambda>x. users_id x = sessions_userId r) (users d) = Some u"
      "users_id u = sessions_userId r"
    using find_key_member [of "sessions_userId r" users_id "users d"] by auto
  show ?thesis
    using nonempty look u assms(3)
    by (simp add: getUserId_def truthy_def Let_def)
qed

theorem getUserId_live_iff_before_expiry_witness:
  "sessions_wf ex_db
   \<and> getUserId ex_db 2592004999 (ex_request (Some ''s-1'') None) = Inr (Some ''u-alice'')
   \<and> getUserId ex_db 2592005000 (ex_request (Some ''s-1'') None)
       = Inl (Redirected (Redirect ''/'' [SetCookie DestroyAuth]))"
proof -
  let ?r = "\<lparr>sessions_id = ''s-1'', sessions_expirationDate = 2592005000,
             sessions_createdAt = 5000, sessions_userId = ''u-alice''\<rparr>"
  have wf: "sessions_wf ex_db" by (simp add: sessions_wf_def ex_db_def)
  have mem: "?r \<in> set (sessions ex_db)" by (simp add: ex_db_def)
  have key: "sessionKey (cookie_auth (ex_request (Some ''s-1'') None)) = Some (sessions_id ?r)"
    by (simp add: ex_request_def)
  show ?thesis
    using wf getUserId_live_iff_before_expiry [OF wf mem key, of 2592004999]
      getUserId_live_iff_before_expiry [OF wf mem key, of 2592005000]
    by simp
qed

subsection \<open>Credentials\<close>

text \<open>
  C5. Looking a user up by email, \<open>verifyUserPassword\<close> gives the same result, \<open>None\<close>
  (\<^verbatim>\<open>null\<close>), in each of the three ways it can fail: no user has that email; the user
  has no stored password hash; the password does not match the stored hash. The result
  does not tell a wrong password from an unknown user.
\<close>

theorem verifyUserPassword_failures_all_null:
  assumes "find (\<lambda>u. users_email u = email) (users d) = None
           \<or> (\<exists>u. find (\<lambda>u. users_email u = email) (users d) = Some u
                  \<and> find (\<lambda>p. passwords_userId p = users_id u) (passwords d) = None)
           \<or> (\<exists>u pw. find (\<lambda>u. users_email u = email) (users d) = Some u
                  \<and> find (\<lambda>p. passwords_userId p = users_id u) (passwords d) = Some pw
                  \<and> \<not> bcrypt_compare e password (passwords_hash pw))"
  shows "verifyUserPassword e d \<lparr>userInfo_email = Some email, userInfo_userId = None\<rparr> password
         = None"
proof -
  have m: "users_matches (EqEmail email) = (\<lambda>u. users_email u = email)"
    by (rule ext) simp
  show ?thesis
    using assms by (auto simp: verifyUserPassword_def m)
qed

theorem verifyUserPassword_failures_all_null_witness:
  "verifyUserPassword ex_env ex_db
     \<lparr>userInfo_email = Some ''nobody@example.com'', userInfo_userId = None\<rparr> ''wonderland'' = None
   \<and> verifyUserPassword ex_env ex_db
     \<lparr>userInfo_email = Some ''carol@example.com'', userInfo_userId = None\<rparr> ''wonderland'' = None
   \<and> verifyUserPassword ex_env ex_db
     \<lparr>userInfo_email = Some ''alice@example.com'', userInfo_userId = None\<rparr> ''builder'' = None
   \<and> verifyUserPassword ex_env ex_db
     \<lparr>userInfo_email = Some ''alice@example.com'', userInfo_userId = None\<rparr> ''wonderland''
       = Some ''u-alice''"
proof -
  have 1: "verifyUserPassword ex_env ex_db
     \<lparr>userInfo_email = Some ''nobody@example.com'', userInfo_userId = None\<rparr> ''wonderland'' = None"
    by (rule verifyUserPassword_failures_all_null) (simp add: ex_db_def)
  have 2: "verifyUserPassword ex_env ex_db
     \<lparr>userInfo_email = Some ''carol@example.com'', userInfo_userId = None\<rparr> ''wonderland'' = None"
    by (rule verifyUserPassword_failures_all_null) (simp add: ex_db_def)
  have 3: "verifyUserPassword ex_env ex_db
     \<lparr>userInfo_email = Some ''alice@example.com'', userInfo_userId = None\<rparr> ''builder'' = None"
    by (rule verifyUserPassword_failures_all_null) (simp add: ex_db_def ex_env_def)
  have 4: "verifyUserPassword ex_env ex_db
     \<lparr>userInfo_email = Some ''alice@example.com'', userInfo_userId = None\<rparr> ''wonderland''
       = Some ''u-alice''"
    by (simp add: verifyUserPassword_def ex_db_def ex_env_def)
  from 1 2 3 4 show ?thesis by blast
qed


text \<open>
  C10. When the credentials do not verify, \<open>login\<close> returns \<^verbatim>\<open>null\<close> and the store
  is unchanged; in particular no session row is inserted.
\<close>

theorem login_failure_leaves_store:
  assumes "verifyUserPassword e d \<lparr>userInfo_email = Some email, userInfo_userId = None\<rparr> password
           = None"
  shows "login e d now ts newId email password = (Inr None, d)"
  using assms by (simp add: login_def)

theorem login_failure_leaves_store_witness:
  "login ex_env ex_db 7000 7000 ''s-2'' ''alice@example.com'' ''builder'' = (Inr None, ex_db)"
proof -
  have "verifyUserPassword ex_env ex_db
     \<lparr>userInfo_email = Some ''alice@example.com'', userInfo_userId = None\<rparr> ''builder'' = None"
    by (simp add: verifyUserPassword_def ex_db_def ex_env_def)
  then show ?thesis by (rule login_failure_leaves_store)
qed

subsection \<open>Session rows and the remember flag\<close>

lemma login_success_row:
  assumes "login e d now ts newId email password = (Inr (Some sess), d1)"
  shows "\<exists>user. verifyUserPassword e d
                    \<lparr>userInfo_email = Some email, userInfo_userId = None\<rparr> password = Some user
              \<and> sess = \<lparr>session_id = newId,
                        session_expirationDate = now + SESSION_EXPIRATION_TIME,
                        session_userId = user\<rparr>
              \<and> sessions d1 = sessions d @
                    [\<lparr>sessions_id = newId,
                      sessions_expirationDate = now + SESSION_EXPIRATION_TIME,
                      sessions_createdAt = ts, sessions_userId = user\<rparr>]
              \<and> users d1 = users d \<and> passwords d1 = passwords d
              \<and> verification d1 = verification d"
  using assms
  by (auto simp: login_def insert_sessions_def returning_def getSessionExpirationDate_def
                 Let_def split: option.splits if_splits)

lemma signup_success_row:
  assumes "signup d now ts userUuid sessionUuid hashedPassword email name = (Inr sess, d1)"
  shows "sess = \<lparr>session_id = sessionUuid,
                 session_expirationDate = now + SESSION_EXPIRATION_TIME,
                 session_userId = userUuid\<rparr>
       \<and> sessions d1 = sessions d @
             [\<lparr>sessions_id = sessionUuid,
               sessions_expirationDate = now + SESSION_EXPIRATION_TIME,
               sessions_createdAt = ts, sessions_userId = userUuid\<rparr>]"
  using assms
  by (auto simp: signup_def insert_users_def insert_passwords_def insert_sessions_def
                 returning_def getSessionExpirationDate_def Let_def
           split: sum.splits if_splits)

lemma handleVerification_remember:
  assumes "submission_status sub = StatusSuccess"
    and "unverifiedSessionIdKey (cookie_verify request) = Some sid" and "sid \<noteq> []"
    and "find (\<lambda>s. sessions_id s = sid) (sessions d) = Some row"
  shows "handleVerification e d now request sub
         = Inr (Redirect (safeRedirect e (submission_redirectTo sub))
                  [SetCookie (CommitAuth
                     \<lparr>sessionKey = Some sid, verifiedTimeKey = Some now\<rparr>
                     (if rememberKey (cookie_verify request) = Some True
                      then Some (sessions_expirationDate row) else None)),
                   SetCookie DestroyVerify])"
  using assms by (simp add: handleVerification_def truthy_def Let_def)

text \<open>
  C8. The session row that \<open>login\<close> inserts expires at the creation instant plus
  \<open>SESSION_EXPIRATION_TIME\<close>, which is thirty days; \<open>login\<close> has no \<open>remember\<close>
  argument at all. For a user without a second factor, \<open>handleNewSession\<close> commits the
  auth cookie with \<^verbatim>\<open>expires\<close> set to the session's \<open>expirationDate\<close> when
  \<open>remember\<close> is true and with no \<^verbatim>\<open>expires\<close> (a browser-session cookie) otherwise.
\<close>

theorem session_expiry_fixed_remember_only_cookie:
  assumes "login e d now ts newId email password = (Inr (Some sess), d1)"
    and "find (\<lambda>v. verification_target v = session_userId sess
                      \<and> verification_type v = twoFAVerificationType e) (verification d1)
         = None"
  shows "SESSION_EXPIRATION_TIME = 30 * (24 * 60 * 60 * 1000)
       \<and> session_expirationDate sess = now + SESSION_EXPIRATION_TIME
       \<and> map sessions_expirationDate (filter (\<lambda>s. sessions_id s = newId) (sessions d1))
         = [now + SESSION_EXPIRATION_TIME]
       \<and> handleNewSession e d1 request sess redirectTo remember responseInit
         = Redirect (safeRedirect e redirectTo)
             (SetCookie (CommitAuth ((cookie_auth request)\<lparr>sessionKey := Some newId\<rparr>)
                           (if remember then Some (now + SESSION_EXPIRATION_TIME) else None))
              # combineHeaders [responseInit])"
proof -
  from login_success_row [OF assms(1)] obtain user where
    sess: "sess = \<lparr>session_id = newId,
                   session_expirationDate = now + SESSION_EXPIRATION_TIME,
                   session_userId = user\<rparr>"
    and rows: "sessions d1 = sessions d @
                    [\<lparr>sessions_id = newId,
                      sessions_expirationDate = now + SESSION_EXPIRATION_TIME,
                      sessions_createdAt = ts, sessions_userId = user\<rparr>]"
    by blast
  from assms(1) have fresh: "newId \<notin> set (map sessions_id (sessions d))"
    by (auto simp: login_def insert_sessions_def Let_def split: option.splits if_splits)
  then have none: "filter (\<lambda>s. sessions_id s = newId) (sessions d) = []"
    by (auto simp: filter_empty_conv image_iff)
  have c1: "SESSION_EXPIRATION_TIME = 30 * (24 * 60 * 60 * 1000)"
    by (simp add: SESSION_EXPIRATION_TIME_def)
  have c2: "session_expirationDate sess = now + SESSION_EXPIRATION_TIME"
    by (simp add: sess)
  have c3: "map sessions_expirationDate (filter (\<lambda>s. sessions_id s = newId) (sessions d1))
         = [now + SESSION_EXPIRATION_TIME]"
    by (simp add: rows none)
  have c4: "handleNewSession e d1 request sess redirectTo remember responseInit
         = Redirect (safeRedirect e redirectTo)
             (SetCookie (CommitAuth ((cookie_auth request)\<lparr>sessionKey := Some newId\<rparr>)
                           (if remember then Some (now + SESSION_EXPIRATION_TIME) else None))
              # combineHeaders [responseInit])"
    using assms(2)
    by (simp add: handleNewSession_def Let_def combineResponseInits_def combineHeaders_def sess)
  from c1 c2 c3 c4 show ?thesis by blast
qed

theorem session_expiry_fixed_remember_only_cookie_witness:
  "login ex_env ex_db 7000 7100 ''s-2'' ''bob@example.com'' ''builder''
     = (Inr (Some \<lparr>session_id = ''s-2'', session_expirationDate = 2592007000,
                    session_userId = ''u-bob''\<rparr>),
        ex_db\<lparr>sessions := sessions ex_db @
                 [\<lparr>sessions_id = ''s-2'', sessions_expirationDate = 2592007000,
                   sessions_createdAt = 7100, sessions_userId = ''u-bob''\<rparr>]\<rparr>)
   \<and> handleNewSession ex_env
        (ex_db\<lparr>sessions := sessions ex_db @
                 [\<lparr>sessions_id = ''s-2'', sessions_expirationDate = 2592007000,
                   sessions_createdAt = 7100, sessions_userId = ''u-bob''\<rparr>]\<rparr>)
        (ex_request None None)
        \<lparr>session_id = ''s-2'', session_expirationDate = 2592007000, session_userId = ''u-bob''\<rparr>
        None True None
     = Redirect ''/'' [SetCookie (CommitAuth \<lparr>sessionKey = Some ''s-2'', verifiedTimeKey = None\<rparr>
                                   (Some 2592007000))]
   \<and> handleNewSession ex_env
        (ex_db\<lparr>sessions := sessions ex_db @
                 [\<lparr>sessions_id = ''s-2'', sessions_expirationDate = 2592007000,
                   sessions_createdAt = 7100, sessions_userId = ''u-bob''\<rparr>]\<rparr>)
        (ex_request None None)
        \<lparr>session_id = ''s-2'', session_expirationDate = 2592007000, session_userId = ''u-bob''\<rparr>
        None False None
     = Redirect ''/'' [SetCookie (CommitAuth \<lparr>sessionKey = Some ''s-2'', verifiedTimeKey = None\<rparr>
                                   None)]"
proof -
  let ?sess = "\<lparr>session_id = ''s-2'', session_expirationDate = 2592007000,
                session_userId = ''u-bob''\<rparr>"
  let ?d1 = "ex_db\<lparr>sessions := sessions ex_db @
                 [\<lparr>sessions_id = ''s-2'', sessions_expirationDate = 2592007000,
                   sessions_createdAt = 7100, sessions_userId = ''u-bob''\<rparr>]\<rparr>"
  have v: "verifyUserPassword ex_env ex_db
             \<lparr>userInfo_email = Some ''bob@example.com'', userInfo_userId = None\<rparr> ''builder''
           = Some ''u-bob''"
    by (simp add: verifyUserPassword_def ex_db_def ex_env_def)
  have ins: "insert_sessions \<lparr>sessions_id = ''s-2'', sessions_expirationDate = 2592007000,
                   sessions_createdAt = 7100, sessions_userId = ''u-bob''\<rparr> ex_db = Inr ?d1"
    by (simp add: insert_sessions_def ex_db_def)
  have l: "login ex_env ex_db 7000 7100 ''s-2'' ''bob@example.com'' ''builder''
           = (Inr (Some ?sess), ?d1)"
    by (simp add: login_def v ins returning_def getSessionExpirationDate_def
                  SESSION_EXPIRATION_TIME_def)
  have no2fa: "find (\<lambda>v. verification_target v = session_userId ?sess
                      \<and> verification_type v = twoFAVerificationType ex_env) (verification ?d1)
         = None"
    by (simp add: ex_db_def ex_env_def)
  have s: "safeRedirect ex_env None = ''/''" by (simp add: ex_env_def)
  have a: "cookie_auth (ex_request None None)\<lparr>sessionKey := Some ''s-2''\<rparr>
           = \<lparr>sessionKey = Some ''s-2'', verifiedTimeKey = None\<rparr>"
    by (simp add: ex_request_def)
  have t: "(7000::int) + SESSION_EXPIRATION_TIME = 2592007000"
    by (simp add: SESSION_EXPIRATION_TIME_def)
  note th = session_expiry_fixed_remember_only_cookie [OF l no2fa]
  have r1: "handleNewSession ex_env ?d1 (ex_request None None) ?sess None True None
     = Redirect ''/'' [SetCookie (CommitAuth \<lparr>sessionKey = Some ''s-2'', verifiedTimeKey = None\<rparr>
                                   (Some 2592007000))]"
    using th [of "ex_request None None" None True None]
    by (simp add: s a t combineHeaders_def)
  have r2: "handleNewSession ex_env ?d1 (ex_request None None) ?sess None False None
     = Redirect ''/'' [SetCookie (CommitAuth \<lparr>sessionKey = Some ''s-2'', verifiedTimeKey = None\<rparr>
                                   None)]"
    using th [of "ex_request None None" None False None]
    by (simp add: s a t combineHeaders_def)
  from l r1 r2 show ?thesis by blast
qed

subsection \<open>Logout\<close>

text \<open>
  C9. \<open>logout\<close> always returns its redirect, never an error; afterwards the store has no
  session row with the id the request presented; when there was no such row to begin
  with the store is unchanged; and a second \<open>logout\<close> with the same request gives the
  same response and the same store as the first.
\<close>

theorem logout_idempotent:
  assumes "[] \<notin> set (map sessions_id (sessions d))"
    and "sessionKey (cookie_auth request) = Some token"
  shows "(\<exists>resp. fst (logout e d request redirectTo responseInit) = Inr resp)
       \<and> token \<notin> set (map sessions_id (sessions (snd (logout e d request redirectTo responseInit))))
       \<and> (token \<notin> set (map sessions_id (sessions d))
            \<longrightarrow> snd (logout e d request redirectTo responseInit) = d)
       \<and> logout e (snd (logout e d request redirectTo responseInit)) request redirectTo responseInit
           = logout e d request redirectTo responseInit"
proof (cases "token = []")
  case True
  with assms show ?thesis
    by (simp add: logout_def truthy_def)
next
  case False
  have keep: "token \<notin> set (map sessions_id (sessions d))
              \<Longrightarrow> filter (\<lambda>s. sessions_id s \<noteq> token) (sessions d) = sessions d"
    by (induction "sessions d") (auto simp: filter_id_conv)
  from False assms(2) show ?thesis
    using keep by (auto simp: logout_def truthy_def Let_def)
qed

theorem logout_idempotent_witness:
  "fst (logout ex_env ex_db (ex_request (Some ''s-1'') None) None None)
     = Inr (Redirect ''/'' [SetCookie DestroyAuth])
   \<and> sessions (snd (logout ex_env ex_db (ex_request (Some ''s-1'') None) None None)) = []
   \<and> logout ex_env (snd (logout ex_env ex_db (ex_request (Some ''s-1'') None) None None))
        (ex_request (Some ''s-1'') None) None None
      = logout ex_env ex_db (ex_request (Some ''s-1'') None) None None
   \<and> logout ex_env ex_db (ex_request (Some ''s-unknown'') None) None None
      = (Inr (Redirect ''/'' [SetCookie DestroyAuth]), ex_db)"
proof -
  have ne: "[] \<notin> set (map sessions_id (sessions ex_db))" by (simp add: ex_db_def)
  have k1: "sessionKey (cookie_auth (ex_request (Some ''s-1'') None)) = Some ''s-1''"
    by (simp add: ex_request_def)
  have k2: "sessionKey (cookie_auth (ex_request (Some ''s-unknown'') None)) = Some ''s-unknown''"
    by (simp add: ex_request_def)
  have r1: "fst (logout ex_env ex_db (ex_request (Some ''s-1'') None) None None)
             = Inr (Redirect ''/'' [SetCookie DestroyAuth])"
    by (simp add: logout_def ex_request_def ex_env_def combineHeaders_def Let_def)
  have r2: "sessions (snd (logout ex_env ex_db (ex_request (Some ''s-1'') None) None None)) = []"
    by (simp add: logout_def ex_request_def ex_db_def truthy_def Let_def)
  have r3: "fst (logout ex_env ex_db (ex_request (Some ''s-unknown'') None) None None)
             = Inr (Redirect ''/'' [SetCookie DestroyAuth])"
    by (simp add: logout_def ex_request_def ex_env_def combineHeaders_def Let_def)
  have absent: "''s-unknown'' \<notin> set (map sessions_id (sessions ex_db))"
    by (simp add: ex_db_def)
  from logout_idempotent [OF ne k2, of ex_env None None] absent
  have r4: "snd (logout ex_env ex_db (ex_request (Some ''s-unknown'') None) None None) = ex_db"
    by blast
  from logout_idempotent [OF ne k1, of ex_env None None]
  have r5: "logout ex_env (snd (logout ex_env ex_db (ex_request (Some ''s-1'') None) None None))
        (ex_request (Some ''s-1'') None) None None
      = logout ex_env ex_db (ex_request (Some ''s-1'') None) None None"
    by blast
  from r1 r2 r3 r4 r5 show ?thesis by (simp add: prod_eq_iff)
qed

subsection \<open>The two-phase login\<close>

text \<open>
  C3. When the user has a second factor enrolled, the only header \<open>handleNewSession\<close>
  adds to the response is the commit of the verify session, holding
  \<^verbatim>\<open>unverified-session-id\<close> and \<^verbatim>\<open>remember\<close>; with no \<open>responseInit\<close> that is the only
  header. The auth session is neither read nor committed in this branch. Presenting the
  pending cookie does not change what \<open>getUserId\<close> answers, and a client that holds it and
  no auth cookie is not authenticated.
\<close>

theorem handleNewSession_two_factor_writes_pending_only:
  assumes "find (\<lambda>v. verification_target v = session_userId sess
                      \<and> verification_type v = twoFAVerificationType e) (verification d)
           \<noteq> None"
  shows "handleNewSession e d request sess redirectTo remember responseInit
         = Redirect (getRedirectToUrl e request (twoFAVerificationType e)
                       (session_userId sess) redirectTo)
             (SetCookie (CommitVerify \<lparr>unverifiedSessionIdKey = Some (session_id sess),
                                       rememberKey = Some remember\<rparr>)
              # combineHeaders [responseInit])
       \<and> handleNewSession e d request sess redirectTo remember None
         = Redirect (getRedirectToUrl e request (twoFAVerificationType e)
                       (session_userId sess) redirectTo)
             [SetCookie (CommitVerify \<lparr>unverifiedSessionIdKey = Some (session_id sess),
                                       rememberKey = Some remember\<rparr>)]
       \<and> getUserId d now
            (request\<lparr>cookie_verify := \<lparr>unverifiedSessionIdKey = Some (session_id sess),
                                        rememberKey = Some remember\<rparr>\<rparr>)
         = getUserId d now request
       \<and> getUserId d now
            \<lparr>cookie_auth = emptyAuthSession,
             cookie_verify = \<lparr>unverifiedSessionIdKey = Some (session_id sess),
                              rememberKey = Some remember\<rparr>,
             request_url = url\<rparr>
         = Inr None"
proof -
  have branch: "handleNewSession e d request sess redirectTo remember ri
         = Redirect (getRedirectToUrl e request (twoFAVerificationType e)
                       (session_userId sess) redirectTo)
             (SetCookie (CommitVerify \<lparr>unverifiedSessionIdKey = Some (session_id sess),
                                       rememberKey = Some remember\<rparr>)
              # combineHeaders [ri])" for ri
    using assms
    by (simp add: handleNewSession_def Let_def emptyVerifySession_def
                  combineResponseInits_def combineHeaders_def)
  have frame: "getUserId d now (request\<lparr>cookie_verify := v\<rparr>) = getUserId d now request" for v
    by (simp add: getUserId_def)
  have anon: "getUserId d now \<lparr>cookie_auth = emptyAuthSession, cookie_verify = v,
                                request_url = url\<rparr> = Inr None" for v
    by (simp add: getUserId_def emptyAuthSession_def truthy_def)
  show ?thesis
    using branch [of responseInit] branch [of None] frame anon
    by (simp add: combineHeaders_def)
qed

theorem handleNewSession_two_factor_writes_pending_only_witness:
  "handleNewSession ex_env ex_db (ex_request None None)
     \<lparr>session_id = ''s-1'', session_expirationDate = 2592005000, session_userId = ''u-alice''\<rparr>
     None True None
   = Redirect ''/accounts/verify?type=2fa''
       [SetCookie (CommitVerify \<lparr>unverifiedSessionIdKey = Some ''s-1'',
                                 rememberKey = Some True\<rparr>)]
   \<and> getUserId ex_db 6000
        \<lparr>cookie_auth = emptyAuthSession,
         cookie_verify = \<lparr>unverifiedSessionIdKey = Some ''s-1'', rememberKey = Some True\<rparr>,
         request_url = ''https://example.com/settings''\<rparr>
     = Inr None"
proof -
  let ?sess = "\<lparr>session_id = ''s-1'', session_expirationDate = 2592005000,
                session_userId = ''u-alice''\<rparr>"
  have enrolled: "find (\<lambda>v. verification_target v = session_userId ?sess
                      \<and> verification_type v = twoFAVerificationType ex_env) (verification ex_db)
           \<noteq> None"
    by (simp add: ex_db_def ex_env_def)
  note t = handleNewSession_two_factor_writes_pending_only
            [OF enrolled, of "ex_request None None" None True None 6000
               "''https://example.com/settings''"]
  have url: "getRedirectToUrl ex_env (ex_request None None) (twoFAVerificationType ex_env)
               (session_userId ?sess) None = ''/accounts/verify?type=2fa''"
    by (simp add: ex_env_def)
  from t have a: "handleNewSession ex_env ex_db (ex_request None None) ?sess None True None
         = Redirect (getRedirectToUrl ex_env (ex_request None None) (twoFAVerificationType ex_env)
                       (session_userId ?sess) None)
             [SetCookie (CommitVerify \<lparr>unverifiedSessionIdKey = Some (session_id ?sess),
                                       rememberKey = Some True\<rparr>)]"
    by (rule conjunct1 [OF conjunct2])
  from t have b: "getUserId ex_db 6000
            \<lparr>cookie_auth = emptyAuthSession,
             cookie_verify = \<lparr>unverifiedSessionIdKey = Some (session_id ?sess),
                              rememberKey = Some True\<rparr>,
             request_url = ''https://example.com/settings''\<rparr>
         = Inr None"
    by (rule conjunct2 [OF conjunct2 [OF conjunct2]])
  from a b show ?thesis unfolding url by simp
qed

text \<open>
  C2. \<open>login\<close> inserts the candidate session row under the fresh id; with a second factor
  enrolled \<open>handleNewSession\<close> parks that id in the verify cookie; and when the client
  presents that cookie with a successful submission while the row is still in the store,
  \<open>handleVerification\<close> commits an auth session whose \<^verbatim>\<open>sessionId\<close> is that same id.
  \<open>handleVerification\<close> only reads the store, so no other row is created.
\<close>

theorem step_up_promotes_candidate_session:
  assumes "login e d now ts newId email password = (Inr (Some sess), d1)"
    and "newId \<noteq> []"
    and "find (\<lambda>v. verification_target v = session_userId sess
                      \<and> verification_type v = twoFAVerificationType e) (verification d1)
         \<noteq> None"
    and "handleNewSession e d1 request sess redirectTo remember responseInit
         = Redirect location (SetCookie (CommitVerify pending) # rest)"
    and "cookie_verify request2 = pending"
    and "submission_status sub = StatusSuccess"
    and "find (\<lambda>s. sessions_id s = newId) (sessions d2) = Some row"
  shows "session_id sess = newId
       \<and> find (\<lambda>s. sessions_id s = newId) (sessions d1)
         = Some \<lparr>sessions_id = newId, sessions_expirationDate = session_expirationDate sess,
                 sessions_createdAt = ts, sessions_userId = session_userId sess\<rparr>
       \<and> pending = \<lparr>unverifiedSessionIdKey = Some newId, rememberKey = Some remember\<rparr>
       \<and> handleVerification e d2 now2 request2 sub
         = Inr (Redirect (safeRedirect e (submission_redirectTo sub))
                  [SetCookie (CommitAuth
                     \<lparr>sessionKey = Some newId, verifiedTimeKey = Some now2\<rparr>
                     (if remember then Some (sessions_expirationDate row) else None)),
                   SetCookie DestroyVerify])"
proof -
  from login_success_row [OF assms(1)] obtain user where
    sess: "sess = \<lparr>session_id = newId,
                   session_expirationDate = now + SESSION_EXPIRATION_TIME,
                   session_userId = user\<rparr>"
    and rows: "sessions d1 = sessions d @
                    [\<lparr>sessions_id = newId,
                      sessions_expirationDate = now + SESSION_EXPIRATION_TIME,
                      sessions_createdAt = ts, sessions_userId = user\<rparr>]"
    by blast
  from assms(1) have fresh: "newId \<notin> set (map sessions_id (sessions d))"
    by (auto simp: login_def insert_sessions_def Let_def split: option.splits if_splits)
  then have none: "find (\<lambda>s. sessions_id s = newId) (sessions d) = None"
    by (auto simp: find_None_iff image_iff)
  have c1: "session_id sess = newId" by (simp add: sess)
  have c2: "find (\<lambda>s. sessions_id s = newId) (sessions d1)
         = Some \<lparr>sessions_id = newId, sessions_expirationDate = session_expirationDate sess,
                 sessions_createdAt = ts, sessions_userId = session_userId sess\<rparr>"
    by (simp add: rows find_append_rows none sess)
  from assms(3,4) have c3:
    "pending = \<lparr>unverifiedSessionIdKey = Some newId, rememberKey = Some remember\<rparr>"
    by (simp add: handleNewSession_def Let_def emptyVerifySession_def
                  combineResponseInits_def combineHeaders_def sess)
  from assms(5) c3 have key: "unverifiedSessionIdKey (cookie_verify request2) = Some newId"
    and rem: "rememberKey (cookie_verify request2) = Some remember"
    by simp_all
  have c4: "handleVerification e d2 now2 request2 sub
         = Inr (Redirect (safeRedirect e (submission_redirectTo sub))
                  [SetCookie (CommitAuth
                     \<lparr>sessionKey = Some newId, verifiedTimeKey = Some now2\<rparr>
                     (if remember then Some (sessions_expirationDate row) else None)),
                   SetCookie DestroyVerify])"
    using handleVerification_remember [OF assms(6) key assms(2) assms(7), of e now2]
    by (simp add: rem)
  from c1 c2 c3 c4 show ?thesis by blast
qed

theorem step_up_promotes_candidate_session_witness:
  "handleVerification ex_env
     (ex_db\<lparr>sessions := sessions ex_db @
              [\<lparr>sessions_id = ''s-2'', sessions_expirationDate = 2592007000,
                sessions_createdAt = 7100, sessions_userId = ''u-alice''\<rparr>]\<rparr>)
     9000
     \<lparr>cookie_auth = emptyAuthSession,
      cookie_verify = \<lparr>unverifiedSessionIdKey = Some ''s-2'', rememberKey = Some True\<rparr>,
      request_url = ''https://example.com/accounts/verify''\<rparr>
     \<lparr>submission_status = StatusSuccess, submission_redirectTo = None\<rparr>
   = Inr (Redirect ''/''
            [SetCookie (CommitAuth \<lparr>sessionKey = Some ''s-2'', verifiedTimeKey = Some 9000\<rparr>
                          (Some 2592007000)),
             SetCookie DestroyVerify])"
proof -
  let ?sess = "\<lparr>session_id = ''s-2'', session_expirationDate = 2592007000,
                session_userId = ''u-alice''\<rparr>"
  let ?row = "\<lparr>sessions_id = ''s-2'', sessions_expirationDate = 2592007000,
               sessions_createdAt = 7100, sessions_userId = ''u-alice''\<rparr>"
  let ?d1 = "ex_db\<lparr>sessions := sessions ex_db @ [?row]\<rparr>"
  let ?pending = "\<lparr>unverifiedSessionIdKey = Some ''s-2'', rememberKey = Some True\<rparr>"
  let ?request2 = "\<lparr>cookie_auth = emptyAuthSession, cookie_verify = ?pending,
                    request_url = ''https://example.com/accounts/verify''\<rparr>"
  let ?sub = "\<lparr>submission_status = StatusSuccess, submission_redirectTo = None\<rparr>"
  have v: "verifyUserPassword ex_env ex_db
             \<lparr>userInfo_email = Some ''alice@example.com'', userInfo_userId = None\<rparr>
             ''wonderland'' = Some ''u-alice''"
    by (simp add: verifyUserPassword_def ex_db_def ex_env_def)
  have ins: "insert_sessions ?row ex_db = Inr ?d1"
    by (simp add: insert_sessions_def ex_db_def)
  have l: "login ex_env ex_db 7000 7100 ''s-2'' ''alice@example.com'' ''wonderland''
           = (Inr (Some ?sess), ?d1)"
    by (simp add: login_def v ins returning_def getSessionExpirationDate_def
                  SESSION_EXPIRATION_TIME_def)
  have ne: "''s-2'' \<noteq> []" by simp
  have enrolled: "find (\<lambda>v. verification_target v = session_userId ?sess
                      \<and> verification_type v = twoFAVerificationType ex_env) (verification ?d1)
         \<noteq> None"
    by (simp add: ex_db_def ex_env_def)
  have h: "handleNewSession ex_env ?d1 (ex_request None None) ?sess None True None
           = Redirect ''/accounts/verify?type=2fa'' (SetCookie (CommitVerify ?pending) # [])"
    by (simp add: handleNewSession_def ex_db_def ex_env_def emptyVerifySession_def
                  combineResponseInits_def combineHeaders_def)
  have ck: "cookie_verify ?request2 = ?pending" by simp
  have st: "submission_status ?sub = StatusSuccess" by simp
  have still: "find (\<lambda>s. sessions_id s = ''s-2'') (sessions ?d1) = Some ?row"
    by (simp add: ex_db_def)
  have s: "safeRedirect ex_env None = ''/''"
    by (simp add: ex_env_def)
  show ?thesis
    using step_up_promotes_candidate_session [OF l ne enrolled h ck st still, of 9000]
    by (simp add: s)
qed

text \<open>
  C6. With a successful submission and an \<^verbatim>\<open>unverified-session-id\<close> in the verify
  cookie, but no session row of that id in the store, \<open>handleVerification\<close> throws a
  redirect to the login page that carries no header: nothing is committed to the auth
  session.
\<close>

theorem handleVerification_missing_row_aborts:
  assumes "submission_status sub = StatusSuccess"
    and "unverifiedSessionIdKey (cookie_verify request) = Some sid" and "sid \<noteq> []"
    and "find (\<lambda>s. sessions_id s = sid) (sessions d) = None"
  shows "handleVerification e d now request sub
         = Inl (Redirected (Redirect ''/accounts/login'' []))"
  using assms by (simp add: handleVerification_def truthy_def Let_def)

theorem handleVerification_missing_row_aborts_witness:
  "handleVerification ex_env ex_db 9000
     \<lparr>cookie_auth = emptyAuthSession,
      cookie_verify = \<lparr>unverifiedSessionIdKey = Some ''s-gone'', rememberKey = Some True\<rparr>,
      request_url = ''https://example.com/accounts/verify''\<rparr>
     \<lparr>submission_status = StatusSuccess, submission_redirectTo = None\<rparr>
   = Inl (Redirected (Redirect ''/accounts/login'' []))"
  by (rule handleVerification_missing_row_aborts [where sid = "''s-gone''"])
     (simp_all add: ex_db_def)

subsection \<open>Freshness of the last verification\<close>

text \<open>
  What \<open>shouldRequestTwoFA\<close> computes for a logged-in user with a second factor and no
  pending verify cookie: the comparison is against \<^verbatim>\<open>1000 * 60 * 2\<close> milliseconds.
\<close>

lemma shouldRequestTwoFA_threshold:
  assumes "unverifiedSessionIdKey (cookie_verify request) = None"
    and "getUserId d t1 request = Inr (Some userId)" and "userId \<noteq> []"
    and "find (\<lambda>v. verification_target v = userId
                      \<and> verification_type v = twoFAVerificationType e) (verification d)
         \<noteq> None"
  shows "shouldRequestTwoFA e d t1 t2 request
         = Inr (t2 - (case verifiedTimeKey (cookie_auth request) of None \<Rightarrow> 0 | Some t \<Rightarrow> t)
                > 120000)"
  using assms by (auto simp: shouldRequestTwoFA_def truthy_def Let_def)

text \<open>
  C1. The source's comment and the name \<open>twoHours\<close> say that a new verification is
  requested when more than two hours have passed since the last one. Run on a user with
  a second factor, a live session and a stamp three minutes old, \<open>shouldRequestTwoFA\<close>
  already answers \<open>True\<close>, although three minutes do not exceed two hours.
\<close>

theorem shouldRequestTwoFA_stale_after_three_minutes:
  "getUserId ex_db 1180000 (ex_request (Some ''s-1'') (Some 1000000)) = Inr (Some ''u-alice'')
   \<and> shouldRequestTwoFA ex_env ex_db 1180000 1180000 (ex_request (Some ''s-1'') (Some 1000000))
     = Inr True
   \<and> (1180000::int) - 1000000 = 3 * 60 * 1000
   \<and> \<not> ((1180000::int) - 1000000 > 2 * 60 * 60 * 1000)"
  by (simp add: shouldRequestTwoFA_def getUserId_def truthy_def ex_request_def ex_db_def
                ex_env_def emptyVerifySession_def)

subsection \<open>The verification table\<close>

lemma distinct_filter_keys: "distinct (map f xs) \<Longrightarrow> distinct (map f (filter P xs))"
  by (induction xs) auto

lemma insert_verification_unique:
  assumes "targetTypeUnique rows" and "insert_verification row rows = Inr rows'"
  shows "targetTypeUnique rows'"
  using assms by (auto simp: insert_verification_def targetTypeUnique_def split: if_splits)

lemma delete_verification_unique:
  "targetTypeUnique rows \<Longrightarrow> targetTypeUnique (delete_verification target ty rows)"
  unfolding targetTypeUnique_def delete_verification_def by (rule distinct_filter_keys)

lemma write_verification_unique:
  assumes "targetTypeUnique rows"
  shows "targetTypeUnique (write_verification w rows)"
proof (cases w)
  case (Insert row)
  with assms show ?thesis
    by (auto split: sum.splits intro: insert_verification_unique)
next
  case (InsertOrReplace row)
  have "targetTypeUnique (delete_verification (verification_target row) (verification_type row) rows)"
    using assms by (rule delete_verification_unique)
  with assms InsertOrReplace show ?thesis
    by (auto simp: insertOrReplace_verification_def split: sum.splits
             intro: insert_verification_unique)
next
  case (Delete target ty)
  with assms show ?thesis by (simp add: delete_verification_unique)
qed

lemma writes_verification_unique:
  "targetTypeUnique rows \<Longrightarrow> targetTypeUnique (writes_verification ws rows)"
  by (induction ws arbitrary: rows) (simp_all add: write_verification_unique)


text \<open>
  C7. Whatever writes the store has applied to the verification table, in whatever order
  its callers' writes were interleaved, the table holds at most one row for each
  \<open>(target, type)\<close> pair: the constraint rejects the insert that would add a second.
\<close>

theorem verification_at_most_one_row_per_target_type:
  "targetTypeUnique (writes_verification ws [])"
  using writes_verification_unique [of "[]" ws] by (simp add: targetTypeUnique_def)

end
